theory Spec2Isabelle
  imports Main "HOL-Library.Word" "HOL-Library.AList"
begin

unbundle bit_operations_syntax

section \<open>The message processor of gencpplib (message\_processor.cxx, queue.h)\<close>

text \<open>
  A shallow embedding of \<^verbatim>\<open>src/message_processor.cxx\<close> and of the queue of
  \<^verbatim>\<open>src/queue.h\<close>. The output stream \<^verbatim>\<open>std::cerr\<close> is a string that
  only grows; the members of \<^verbatim>\<open>Message_Processor::Impl\<close> are a record that every
  member function takes and returns; the locals of \<^verbatim>\<open>Impl::loop\<close> that survive an
  iteration are a second record. Machine integers follow the LP64 data model of the
  Linux targets the file compiles on: \<^verbatim>\<open>pthread_t\<close> and \<^verbatim>\<open>size_t\<close> are
  \<^verbatim>\<open>unsigned long\<close>, 64 bits wide, and \<^verbatim>\<open>int\<close> is 32 bits wide. Source ids
  are never computed with, so they are mathematical integers.
\<close>

subsection \<open>Verbosity levels and the prefix table\<close>

text \<open>
  Modelled from the spec: the enumeration \<^verbatim>\<open>re_gen::Verbosity_Level\<close> is declared in
  \<^verbatim>\<open>gen/gendefs.h\<close>, which is not among the source files. The spec's data model gives
  the five levels in ascending order, Quiet(0), Errors(1), MajorSteps(2), MinorSteps(3),
  Everything(4); the comments of the table \<^verbatim>\<open>msg_prefixes\<close> name the enumerators in the
  same order.
\<close>

datatype Verbosity_Level =
    VERBOSITY_QUIET
  | VERBOSITY_ERRORS
  | VERBOSITY_MAJOR_STEPS
  | VERBOSITY_MINOR_STEPS
  | VERBOSITY_EVERYTHING

fun level_value :: "Verbosity_Level \<Rightarrow> nat" where
  "level_value VERBOSITY_QUIET = 0"
| "level_value VERBOSITY_ERRORS = 1"
| "level_value VERBOSITY_MAJOR_STEPS = 2"
| "level_value VERBOSITY_MINOR_STEPS = 3"
| "level_value VERBOSITY_EVERYTHING = 4"

text \<open>The comparison \<^verbatim>\<open>a <= b\<close> of two enumerators compares their values.\<close>

definition level_le :: "Verbosity_Level \<Rightarrow> Verbosity_Level \<Rightarrow> bool" where
  "level_le a b = (level_value a \<le> level_value b)"

fun msg_prefixes :: "Verbosity_Level \<Rightarrow> string" where
  "msg_prefixes VERBOSITY_QUIET = ''''"
| "msg_prefixes VERBOSITY_ERRORS = ''Error: ''"
| "msg_prefixes VERBOSITY_MAJOR_STEPS = ''Info:  ''"
| "msg_prefixes VERBOSITY_MINOR_STEPS = ''Info:  ''"
| "msg_prefixes VERBOSITY_EVERYTHING = ''Debug: ''"

definition MESSAGE_PROCESSOR_VERBOSITY :: Verbosity_Level where
  "MESSAGE_PROCESSOR_VERBOSITY = VERBOSITY_EVERYTHING"

subsection \<open>Messages\<close>

datatype Action = ACTION_KILL | ACTION_DISPLAY_MSG

record Message_Parms =
  action :: Action
  tid :: "64 word"
  src :: int
  severity :: Verbosity_Level
  msg :: string

subsection \<open>Strings and stream output\<close>

definition endl :: string where
  "endl = [CHR 0x0A]"

text \<open>\<^verbatim>\<open>operator<<\<close> of an unsigned integer: its decimal digits.\<close>

function show_nat :: "nat \<Rightarrow> string" where
  "show_nat n =
     (if n < 10 then [''0123456789'' ! n]
      else show_nat (n div 10) @ [''0123456789'' ! (n mod 10)])"
  by pat_completeness auto
termination
  by (relation "measure id") auto

declare show_nat.simps [simp del]

text \<open>\<^verbatim>\<open>std::setw(w)\<close> with the default fill and adjustment: blanks on the left.\<close>

definition setw :: "nat \<Rightarrow> string \<Rightarrow> string" where
  "setw w s = replicate (w - length s) (CHR '' '') @ s"

text \<open>
  \<^verbatim>\<open>std::string::rfind(str)\<close>: the highest position at which \<^verbatim>\<open>str\<close> occurs, and
  \<^verbatim>\<open>npos\<close>, the largest \<^verbatim>\<open>size_t\<close>, when it occurs nowhere. The search starts at
  \<^verbatim>\<open>size() - str.size()\<close> and walks down to position 0.
\<close>

definition npos :: "64 word" where
  "npos = - 1"

fun rfind_from :: "string \<Rightarrow> string \<Rightarrow> nat \<Rightarrow> 64 word" where
  "rfind_from s pat 0 = (if take (length pat) s = pat then 0 else npos)"
| "rfind_from s pat (Suc i) =
     (if take (length pat) (drop (Suc i) s) = pat then of_nat (Suc i)
      else rfind_from s pat i)"

definition rfind :: "string \<Rightarrow> string \<Rightarrow> 64 word" where
  "rfind s pat =
     (if length pat \<le> length s then rfind_from s pat (length s - length pat) else npos)"

text \<open>
  The test both \<^verbatim>\<open>make_msg_to_display\<close> and \<^verbatim>\<open>loop\<close> use for a ticker message,
  \<^verbatim>\<open>msg.rfind(" .") == msg.size() - 2\<close>: the subtraction is one of \<^verbatim>\<open>size_t\<close>
  and wraps around.
\<close>

definition is_ticker :: "string \<Rightarrow> bool" where
  "is_ticker m = (rfind m '' .'' = of_nat (length m) - 2)"

subsection \<open>The queue (queue.h)\<close>

text \<open>
  \<^verbatim>\<open>Queue::push\<close> appends at the tail under the queue's lock. \<^verbatim>\<open>Queue::pop\<close>
  removes the head; on an empty queue it waits for a push, which is the value
  \<open>None\<close> here.
\<close>

definition push :: "'a list \<Rightarrow> 'a \<Rightarrow> 'a list" where
  "push q obj = q @ [obj]"

fun pop :: "'a list \<Rightarrow> ('a \<times> 'a list) option" where
  "pop [] = None"
| "pop (obj # q) = Some (obj, q)"

subsection \<open>The implementation object\<close>

text \<open>
  The two \<^verbatim>\<open>std::map\<close>s are association lists with distinct keys; only lookup,
  \<^verbatim>\<open>operator[]\<close> and \<^verbatim>\<open>size()\<close> are used on them. The thread handle and the
  back pointer to the owner are never read and are left out.
\<close>

record Impl =
  we_are_dead :: bool
  is_processing :: bool
  message_processor_src_id :: int
  message_queue :: "Message_Parms list"
  message_source_name_map :: "(int \<times> string) list"
  message_source_verbosity_map :: "(int \<times> Verbosity_Level) list"
  overall_verbosity :: Verbosity_Level

text \<open>
  \<^verbatim>\<open>message_source_verbosity_map[k]\<close> as an rvalue: \<^verbatim>\<open>operator[]\<close> inserts a
  value-initialised entry for a missing key, and the value-initialised enumeration is the
  enumerator of value 0.
\<close>

definition verbosity_index ::
  "(int \<times> Verbosity_Level) list \<Rightarrow> int \<Rightarrow> Verbosity_Level \<times> (int \<times> Verbosity_Level) list" where
  "verbosity_index m k =
     (case map_of m k of
        Some v \<Rightarrow> (v, m)
      | None \<Rightarrow> (VERBOSITY_QUIET, AList.update k VERBOSITY_QUIET m))"

text \<open>
  \<^verbatim>\<open>Impl::make_msg_to_display\<close>: the text to display, whether to display it, and the
  object with the verbosity map as the lookup left it.
\<close>

definition make_msg_to_display :: "Impl \<Rightarrow> Message_Parms \<Rightarrow> bool \<times> string \<times> Impl" where
  "make_msg_to_display st message_parms =
     (let msg_src_str =
            (case map_of (message_source_name_map st) (src message_parms) of
               Some name \<Rightarrow>
                 name @ (if take 2 (msg message_parms) \<noteq> ''::'' then '' - '' else [])
             | None \<Rightarrow> []);
          oss =
            (if severity message_parms = VERBOSITY_QUIET then msg message_parms
             else ''['' @ setw 2 (show_nat (unat (tid message_parms))) @ ''] ''
                  @ msg_prefixes (severity message_parms) @ '' '' @ msg_src_str
                  @ msg message_parms
                  @ (if \<not> is_ticker (msg message_parms) then endl else []));
          (ceiling, vmap) =
            verbosity_index (message_source_verbosity_map st) (src message_parms)
      in (level_le (severity message_parms) ceiling
            \<and> level_le (severity message_parms) (overall_verbosity st),
          oss,
          st\<lparr>message_source_verbosity_map := vmap\<rparr>))"

subsection \<open>The consumer thread: one iteration of the loop\<close>

text \<open>
  The locals of \<^verbatim>\<open>Impl::loop\<close> that live across iterations. \<^verbatim>\<open>prev_tid\<close> is an
  \<^verbatim>\<open>int\<close> that is assigned a \<^verbatim>\<open>pthread_t\<close> (the value is cut to its low 32
  bits) and compared with one (the \<^verbatim>\<open>int\<close> is sign-extended to 64 bits).
  \<^verbatim>\<open>msg_to_display\<close> is written before every read and is a temporary here.
\<close>

record Loop_Locals =
  tick_count :: "32 word"
  prev_msg :: string
  prev_tid :: "32 word"
  prev_src :: int
  prev_severity :: Verbosity_Level

definition initial_locals :: Loop_Locals where
  "initial_locals =
     \<lparr>tick_count = 0, prev_msg = [], prev_tid = - 1, prev_src = - 1,
      prev_severity = VERBOSITY_ERRORS\<rparr>"

definition tick_string :: "string list" where
  "tick_string =
     [[CHR 0x08, CHR ''|''], [CHR 0x08, CHR ''/''], [CHR 0x08, CHR ''-''],
      [CHR 0x08, CHR 0x5C]]"

definition mod_tick_string :: "string list" where
  "mod_tick_string =
     [[CHR 0x08, CHR ''!''], [CHR 0x08, CHR ''X''], [CHR 0x08, CHR ''=''],
      [CHR 0x08, CHR ''V'']]"

text \<open>
  The body of the \<^verbatim>\<open>do\<close> loop from the point where \<^verbatim>\<open>pop\<close> has returned
  \<open>message_parms\<close>; \<open>self\<close> is \<^verbatim>\<open>pthread_self()\<close> of the consumer thread.
  Nothing in the body of this model throws, so the handler of the \<^verbatim>\<open>try\<close> block is
  never entered.
\<close>

definition loop_body ::
  "64 word \<Rightarrow> Message_Parms \<Rightarrow> Impl \<Rightarrow> Loop_Locals \<Rightarrow> string
     \<Rightarrow> Impl \<times> Loop_Locals \<times> string" where
  "loop_body self message_parms st0 loc cerr =
     (let st = st0\<lparr>is_processing := True\<rparr> in
      if action message_parms = ACTION_KILL then (st\<lparr>we_are_dead := True\<rparr>, loc, cerr)
      else if action message_parms \<noteq> ACTION_DISPLAY_MSG then
        (let err_message_parms =
               \<lparr>action = ACTION_DISPLAY_MSG, tid = self, src = message_processor_src_id st,
                severity = VERBOSITY_ERRORS, msg = ''Impl::run - unknown action''\<rparr>;
             (shown, msg_to_display, st') = make_msg_to_display st err_message_parms
         in (st', loc, if shown then cerr @ msg_to_display else cerr))
      else
        (let (shown, msg_to_display, st') = make_msg_to_display st message_parms in
         if shown then
           if is_ticker (msg message_parms) then
             if tick_count loc \<noteq> 0 then
               if src message_parms = prev_src loc
                  \<and> tid message_parms = scast (prev_tid loc) then
                 if msg message_parms \<noteq> prev_msg loc then
                   (st', loc\<lparr>prev_msg := msg message_parms, tick_count := 1\<rparr>,
                    cerr @ endl @ msg_to_display @ tick_string ! 0)
                 else
                   (st', loc\<lparr>tick_count := tick_count loc + 1\<rparr>,
                    cerr @ tick_string ! unat (tick_count loc AND 3))
               else
                 (st', loc\<lparr>tick_count := tick_count loc + 1\<rparr>,
                  cerr @ mod_tick_string ! unat (tick_count loc AND 3))
             else
               (st', loc\<lparr>prev_src := src message_parms, prev_msg := msg message_parms,
                         prev_tid := ucast (tid message_parms), tick_count := 1\<rparr>,
                cerr @ msg_to_display @ tick_string ! 0)
           else
             (let (loc1, cerr1) =
                    (if tick_count loc \<noteq> 0 then (loc\<lparr>tick_count := 0\<rparr>, cerr @ endl)
                     else if prev_severity loc = VERBOSITY_QUIET
                             \<and> severity message_parms \<noteq> VERBOSITY_QUIET
                       then (loc, cerr @ endl)
                     else (loc, cerr))
              in (st',
                  loc1\<lparr>prev_src := src message_parms, prev_msg := msg message_parms,
                        prev_tid := ucast (tid message_parms),
                        prev_severity := severity message_parms\<rparr>,
                  cerr1 @ msg_to_display))
         else (st', loc, cerr)))"

lemma make_msg_to_display_queue:
  "make_msg_to_display st m = (b, s, st') \<Longrightarrow> message_queue st' = message_queue st"
  by (auto simp: make_msg_to_display_def Let_def split: prod.splits)

lemma loop_body_queue:
  "loop_body self m st loc cerr = (st', loc', cerr') \<Longrightarrow>
     message_queue st' = message_queue st"
  by (auto simp: loop_body_def Let_def split: if_splits prod.splits
           dest: make_msg_to_display_queue)

subsection \<open>The consumer thread: the loop\<close>

text \<open>
  The thread either never returns, waiting in \<^verbatim>\<open>pop\<close> on a queue that stays empty,
  or leaves the loop after a kill message.
\<close>

datatype Thread_Result =
    Blocked_In_Pop "Impl \<times> Loop_Locals \<times> string"
  | Returned "Impl \<times> Loop_Locals \<times> string"

function do_while :: "64 word \<Rightarrow> Impl \<Rightarrow> Loop_Locals \<Rightarrow> string \<Rightarrow> Thread_Result" where
  "do_while self st loc cerr =
     (case pop (message_queue st) of
        None \<Rightarrow> Blocked_In_Pop (st\<lparr>is_processing := False\<rparr>, loc, cerr)
      | Some (message_parms, q) \<Rightarrow>
          (case loop_body self message_parms
                  (st\<lparr>is_processing := False, message_queue := q\<rparr>) loc cerr of
             (st', loc', cerr') \<Rightarrow>
               if \<not> we_are_dead st' then do_while self st' loc' cerr'
               else Returned (st', loc', cerr')))"
  by pat_completeness auto
termination
proof (relation "measure (\<lambda>(self, st, loc, cerr). length (message_queue st))", goal_cases)
  case 1
  show ?case by simp
next
  case (2 self st loc cerr x2 message_parms q st' y loc' cerr')
  from 2 have "message_queue st' = q"
    by (auto dest!: loop_body_queue[OF sym])
  moreover from 2 have "message_queue st = message_parms # q"
    by (cases "message_queue st") auto
  ultimately show ?case by simp
qed

declare do_while.simps [simp del]

text \<open>
  \<^verbatim>\<open>Impl::loop\<close> from given locals: the \<^verbatim>\<open>do\<close> loop, then the code after it.
  The thread function starts it with \<open>initial_locals\<close>.
\<close>

definition loop_from :: "64 word \<Rightarrow> Impl \<Rightarrow> Loop_Locals \<Rightarrow> string \<Rightarrow> Thread_Result" where
  "loop_from self st loc cerr =
     (case do_while self st loc cerr of
        Blocked_In_Pop x \<Rightarrow> Blocked_In_Pop x
      | Returned (st1, loc1, cerr1) \<Rightarrow>
          (let st2 = st1\<lparr>is_processing := False\<rparr>;
               err_message_parms =
                 \<lparr>action = ACTION_DISPLAY_MSG, tid = self, src = message_processor_src_id st2,
                  severity = VERBOSITY_MINOR_STEPS, msg = ''Impl::run - exit''\<rparr>;
               (shown, msg_to_display, st3) = make_msg_to_display st2 err_message_parms
           in Returned (st3, loc1, if shown then cerr1 @ msg_to_display @ endl else cerr1)))"

definition loop :: "64 word \<Rightarrow> Impl \<Rightarrow> string \<Rightarrow> Thread_Result" where
  "loop self st cerr = loop_from self st initial_locals cerr"

subsection \<open>The public operations on the implementation object\<close>

text \<open>
  Each member function of \<^verbatim>\<open>Message_Processor\<close> below works on \<^verbatim>\<open>*pimpl\<close>.
  In \<^verbatim>\<open>process_msg\<close> the operator \<^verbatim>\<open>&&\<close> evaluates its right operand, the
  lookup in the verbosity map, only when the left one holds; \<open>self\<close> is
  \<^verbatim>\<open>pthread_self()\<close> of the caller.
\<close>

definition set_overall_verbosity :: "Verbosity_Level \<Rightarrow> Impl \<Rightarrow> Impl" where
  "set_overall_verbosity level st = st\<lparr>overall_verbosity := level\<rparr>"

definition register_msg_src :: "Verbosity_Level \<Rightarrow> string \<Rightarrow> Impl \<Rightarrow> int \<times> Impl" where
  "register_msg_src verbosity src_str st =
     (let msg_src_id = int (length (message_source_name_map st))
      in (msg_src_id,
          st\<lparr>message_source_name_map :=
                AList.update msg_src_id src_str (message_source_name_map st),
              message_source_verbosity_map :=
                AList.update msg_src_id verbosity (message_source_verbosity_map st)\<rparr>))"

definition process_msg ::
  "64 word \<Rightarrow> int \<Rightarrow> Verbosity_Level \<Rightarrow> string \<Rightarrow> Impl \<Rightarrow> Impl" where
  "process_msg self msg_src_id sev msg_str st =
     (if level_le sev (overall_verbosity st) then
        (let (ceiling, vmap) = verbosity_index (message_source_verbosity_map st) msg_src_id;
             st' = st\<lparr>message_source_verbosity_map := vmap\<rparr>
         in if level_le sev ceiling then
              st'\<lparr>message_queue :=
                    push (message_queue st')
                      \<lparr>action = ACTION_DISPLAY_MSG, tid = self, src = msg_src_id,
                       severity = sev, msg = msg_str\<rparr>\<rparr>
            else st')
      else st)"

subsection \<open>Construction and destruction\<close>

datatype Gen_Err = Gen_Err string

text \<open>
  \<^verbatim>\<open>Impl::Impl\<close>. Whether \<^verbatim>\<open>pthread_create\<close> succeeds is the caller's
  \<open>spawn_ok\<close>; the thread it starts runs \<open>loop\<close> on its own schedule.
\<close>

definition Impl_ctor :: "bool \<Rightarrow> Verbosity_Level \<Rightarrow> string \<Rightarrow> (Gen_Err + Impl) \<times> string" where
  "Impl_ctor spawn_ok level cerr =
     (let st = \<lparr>we_are_dead = False, is_processing = False, message_processor_src_id = 0,
                message_queue = [],
                message_source_name_map = AList.update 0 ''Message_Processor'' [],
                message_source_verbosity_map = AList.update 0 MESSAGE_PROCESSOR_VERBOSITY [],
                overall_verbosity = level\<rparr>
      in if \<not> spawn_ok then
           (Inl (Gen_Err ''error in pthread_mutex_init''),
            if level_le VERBOSITY_ERRORS MESSAGE_PROCESSOR_VERBOSITY
               \<and> level_le VERBOSITY_ERRORS level
            then cerr @ msg_prefixes VERBOSITY_ERRORS
                   @ ''Impl::Impl - error in pthread_mutex_init'' @ [CHR 0x0A]
            else cerr)
         else (Inr st, cerr))"

text \<open>
  \<^verbatim>\<open>Impl::~Impl\<close>, run by the destroying thread \<open>self\<close>. The consumer thread writes
  \<^verbatim>\<open>we_are_dead\<close> meanwhile: \<open>dead_at i\<close> is the value the \<open>i\<close>-th test of the
  \<^verbatim>\<open>for\<close> loop reads. Every round of the loop sleeps in \<^verbatim>\<open>select\<close> for the
  \<^verbatim>\<open>timeval\<close> \<open>(tv_sec, tv_usec)\<close>; the function returns the sleeps it asked for.
\<close>

definition timeout :: "nat \<times> nat" where
  "timeout = (0, 100000)"

function wait_for_death :: "(nat \<Rightarrow> bool) \<Rightarrow> nat \<Rightarrow> (nat \<times> nat) list" where
  "wait_for_death dead_at i =
     (if \<not> dead_at i \<and> i < 10 then timeout # wait_for_death dead_at (i + 1) else [])"
  by pat_completeness auto
termination
  by (relation "measure (\<lambda>(dead_at, i). 10 - i)") auto

declare wait_for_death.simps [simp del]

definition Impl_dtor ::
  "64 word \<Rightarrow> (nat \<Rightarrow> bool) \<Rightarrow> Impl \<Rightarrow> string \<Rightarrow> (nat \<times> nat) list \<times> Impl \<times> string" where
  "Impl_dtor self dead_at st cerr =
     (let kill_msg = \<lparr>action = ACTION_DISPLAY_MSG, tid = self,
                       src = message_processor_src_id st,
                       severity = VERBOSITY_MINOR_STEPS, msg = ''killing message processor''\<rparr>;
          kill_act = \<lparr>action = ACTION_KILL, tid = self, src = message_processor_src_id st,
                       severity = VERBOSITY_QUIET, msg = []\<rparr>;
          st1 = st\<lparr>message_queue := push (message_queue st) kill_msg\<rparr>;
          st2 = st1\<lparr>message_queue := push (message_queue st1) kill_act\<rparr>;
          sleeps = wait_for_death dead_at 0;
          message_parms = \<lparr>action = ACTION_DISPLAY_MSG, tid = self,
                            src = message_processor_src_id st2,
                            severity = VERBOSITY_EVERYTHING, msg = ''Impl::~Impl''\<rparr>;
          (shown, msg_to_display, st3) = make_msg_to_display st2 message_parms
      in (sleeps, st3, if shown then cerr @ msg_to_display @ endl else cerr))"

text \<open>
  The process: the file-scope pointer \<^verbatim>\<open>singleton_message_processor\<close> (\<open>None\<close> is
  the null pointer), the member \<^verbatim>\<open>pimpl\<close> of the \<^verbatim>\<open>Message_Processor\<close> object
  at each address, and the output stream.
\<close>

record Process =
  singleton_message_processor :: "nat option"
  pimpl :: "nat \<Rightarrow> Impl option"
  cerr_of :: string

definition initial_process :: Process where
  "initial_process =
     \<lparr>singleton_message_processor = None, pimpl = (\<lambda>this. None), cerr_of = []\<rparr>"

text \<open>
  The constructor of the object at address \<open>this\<close>, called by thread \<open>self\<close>. The
  \<^verbatim>\<open>new\<close> expression that throws assigns nothing, so the handler finds
  \<^verbatim>\<open>pimpl\<close> null, deletes nothing and rethrows.
\<close>

definition Message_Processor_ctor ::
  "bool \<Rightarrow> 64 word \<Rightarrow> nat \<Rightarrow> Verbosity_Level \<Rightarrow> Process \<Rightarrow> (Gen_Err + unit) \<times> Process" where
  "Message_Processor_ctor spawn_ok self this level p0 =
     (let p = p0\<lparr>pimpl := (pimpl p0)(this := None)\<rparr> in
      if singleton_message_processor p \<noteq> None then
        (Inl (Gen_Err ''Message_Processor::get_message_processor - Message_Processor singleton already initialized''),
         p)
      else
        (let p1 = p\<lparr>singleton_message_processor := Some this\<rparr> in
         case Impl_ctor spawn_ok level (cerr_of p1) of
           (Inr impl, cerr1) \<Rightarrow>
             (Inr (),
              p1\<lparr>pimpl := (pimpl p1)(this :=
                     Some (process_msg self (message_processor_src_id impl)
                             VERBOSITY_EVERYTHING
                             ''::Message_Processor - started Message_Processor'' impl)),
                  cerr_of := cerr1\<rparr>)
         | (Inl e, cerr1) \<Rightarrow>
             (Inl e,
              p1\<lparr>cerr_of :=
                    (if level_le VERBOSITY_ERRORS MESSAGE_PROCESSOR_VERBOSITY
                        \<and> level_le VERBOSITY_ERRORS level
                     then cerr1 @ msg_prefixes VERBOSITY_ERRORS
                            @ ''Message_Processor::Message_Processor - unknown exception''
                            @ [CHR 0x0A]
                     else cerr1)\<rparr>)))"

text \<open>The destructor: \<^verbatim>\<open>if (pimpl) delete pimpl;\<close> and nothing else.\<close>

definition Message_Processor_dtor ::
  "64 word \<Rightarrow> (nat \<Rightarrow> bool) \<Rightarrow> nat \<Rightarrow> Process \<Rightarrow> (nat \<times> nat) list \<times> Process" where
  "Message_Processor_dtor self dead_at this p =
     (case pimpl p this of
        None \<Rightarrow> ([], p)
      | Some impl \<Rightarrow>
          (case Impl_dtor self dead_at impl (cerr_of p) of
             (sleeps, impl', cerr1) \<Rightarrow> (sleeps, p\<lparr>cerr_of := cerr1\<rparr>)))"

definition get_message_processor :: "Process \<Rightarrow> Gen_Err + nat" where
  "get_message_processor p =
     (case singleton_message_processor p of
        None \<Rightarrow> Inl (Gen_Err ''Message_Processor::get_message_processor - Message_Processor singleton was never initialized'')
      | Some this \<Rightarrow> Inr this)"

subsection \<open>Observations\<close>

text \<open>
  Three notions the properties are stated with: the ceiling of a source as a lookup in the
  verbosity map reads it; two objects that differ at most in their queues and in entries
  of the verbosity map that no lookup can tell apart; and what a run of the consumer shows
  to the outside, namely whether the loop was left, the locals and the stream.
\<close>

definition ceiling_of :: "Impl \<Rightarrow> int \<Rightarrow> Verbosity_Level" where
  "ceiling_of st k = fst (verbosity_index (message_source_verbosity_map st) k)"

definition same_ceilings :: "Impl \<Rightarrow> Impl \<Rightarrow> bool" where
  "same_ceilings a b =
     (we_are_dead a = we_are_dead b \<and> is_processing a = is_processing b
      \<and> message_processor_src_id a = message_processor_src_id b
      \<and> message_source_name_map a = message_source_name_map b
      \<and> overall_verbosity a = overall_verbosity b
      \<and> (\<forall>k. ceiling_of a k = ceiling_of b k))"

fun outcome :: "Thread_Result \<Rightarrow> bool \<times> Loop_Locals \<times> string" where
  "outcome (Blocked_In_Pop (st, loc, cerr)) = (False, loc, cerr)"
| "outcome (Returned (st, loc, cerr)) = (True, loc, cerr)"

text \<open>An object after two registrations, used to run the definitions on concrete input.\<close>

definition example_impl :: Impl where
  "example_impl =
     \<lparr>we_are_dead = False, is_processing = False, message_processor_src_id = 0,
      message_queue = [],
      message_source_name_map = [(0, ''Message_Processor''), (1, ''Net'')],
      message_source_verbosity_map = [(0, VERBOSITY_EVERYTHING), (1, VERBOSITY_EVERYTHING)],
      overall_verbosity = VERBOSITY_MINOR_STEPS\<rparr>"

section \<open>Properties\<close>

subsection \<open>Auxiliary facts\<close>

lemma level_le_quiet: "level_le VERBOSITY_QUIET c"
  by (simp add: level_le_def)

lemma level_le_quiet_iff: "level_le s VERBOSITY_QUIET \<longleftrightarrow> s = VERBOSITY_QUIET"
  by (cases s) (simp_all add: level_le_def)

lemma is_ticker_hello: "\<not> is_ticker ''hello''"
  by (simp add: is_ticker_def rfind_def npos_def)

lemma update_fresh: "map_of m k = None \<Longrightarrow> AList.update k v m = m @ [(k, v)]"
  by (induction m) (auto split: if_splits)

subsection \<open>Quiet messages\<close>

text \<open>
  Claim C7. A message of severity Quiet always passes both ceilings, and the text
  \<^verbatim>\<open>make_msg_to_display\<close> builds for it is the message text itself: no thread id, no
  severity prefix, no source name, no separator and no line break. When the consumer is
  not in a ticker run and the text is not a ticker text, the iteration that displays the
  message appends exactly the message text to the stream.
\<close>

theorem quiet_rendered_verbatim:
  assumes "severity m = VERBOSITY_QUIET"
  shows "fst (make_msg_to_display st m) \<and> fst (snd (make_msg_to_display st m)) = msg m
         \<and> (action m = ACTION_DISPLAY_MSG \<and> \<not> is_ticker (msg m) \<and> tick_count loc = 0
             \<longrightarrow> snd (snd (loop_body self m st loc cerr)) = cerr @ msg m)"
  using assms
  by (simp add: make_msg_to_display_def loop_body_def Let_def level_le_quiet
           split: prod.splits)

theorem quiet_rendered_verbatim_witness:
  "fst (make_msg_to_display example_impl
          \<lparr>action = ACTION_DISPLAY_MSG, tid = 7, src = 1, severity = VERBOSITY_QUIET,
           msg = ''hello''\<rparr>)
   \<and> fst (snd (make_msg_to_display example_impl
          \<lparr>action = ACTION_DISPLAY_MSG, tid = 7, src = 1, severity = VERBOSITY_QUIET,
           msg = ''hello''\<rparr>)) = ''hello''
   \<and> snd (snd (loop_body 9
          \<lparr>action = ACTION_DISPLAY_MSG, tid = 7, src = 1, severity = VERBOSITY_QUIET,
           msg = ''hello''\<rparr>
          example_impl initial_locals ''abc'')) = ''abchello''"
  using quiet_rendered_verbatim
          [of "\<lparr>action = ACTION_DISPLAY_MSG, tid = 7, src = 1, severity = VERBOSITY_QUIET,
                msg = ''hello''\<rparr>" example_impl initial_locals 9 "''abc''"]
        is_ticker_hello
  by (simp add: initial_locals_def)

subsection \<open>The singleton\<close>

lemma ctor_occupied:
  "singleton_message_processor p \<noteq> None \<Longrightarrow>
     Message_Processor_ctor spawn_ok self this level p =
       (Inl (Gen_Err ''Message_Processor::get_message_processor - Message_Processor singleton already initialized''),
        p\<lparr>pimpl := (pimpl p)(this := None)\<rparr>)"
  by (simp add: Message_Processor_ctor_def Let_def)

lemma ctor_spawn_failure:
  "singleton_message_processor p = None \<Longrightarrow>
     fst (Message_Processor_ctor False self this level p) = Inl (Gen_Err ''error in pthread_mutex_init'')
     \<and> singleton_message_processor (snd (Message_Processor_ctor False self this level p)) = Some this
     \<and> pimpl (snd (Message_Processor_ctor False self this level p)) this = None"
  by (simp add: Message_Processor_ctor_def Impl_ctor_def Let_def)

lemma ctor_success:
  "singleton_message_processor p = None \<Longrightarrow>
     fst (Message_Processor_ctor True self this level p) = Inr ()
     \<and> singleton_message_processor (snd (Message_Processor_ctor True self this level p)) = Some this
     \<and> pimpl (snd (Message_Processor_ctor True self this level p)) this \<noteq> None"
  by (simp add: Message_Processor_ctor_def Impl_ctor_def Let_def)

lemma ctor_Inr_singleton:
  "fst (Message_Processor_ctor spawn_ok self this level p) = Inr () \<Longrightarrow>
     singleton_message_processor (snd (Message_Processor_ctor spawn_ok self this level p)) = Some this"
  by (auto simp: Message_Processor_ctor_def Impl_ctor_def Let_def split: if_splits)

lemma first_ctor:
  "singleton_message_processor (snd (Message_Processor_ctor True 5 1000 VERBOSITY_MINOR_STEPS initial_process)) = Some 1000
   \<and> fst (Message_Processor_ctor True 5 1000 VERBOSITY_MINOR_STEPS initial_process) = Inr ()"
  using ctor_success [of initial_process 5 1000 VERBOSITY_MINOR_STEPS]
  by (simp add: initial_process_def)

lemma dtor_keeps_slot:
  "singleton_message_processor (snd (Message_Processor_dtor self dead_at this p)) =
     singleton_message_processor p"
  by (simp add: Message_Processor_dtor_def split: option.splits prod.splits)

text \<open>
  Claim C4. A constructor call that finds the singleton pointer set returns the
  ``already initialized'' error and leaves the pointer as it was;
  \<^verbatim>\<open>get_message_processor\<close> with the pointer still null returns the ``never
  initialized'' error; and after a constructor call that returned without error it returns
  the address of the object constructed.
\<close>

theorem singleton_conditions:
  "(singleton_message_processor p \<noteq> None \<longrightarrow>
      fst (Message_Processor_ctor spawn_ok self this level p) =
        Inl (Gen_Err ''Message_Processor::get_message_processor - Message_Processor singleton already initialized'')
      \<and> singleton_message_processor (snd (Message_Processor_ctor spawn_ok self this level p)) =
          singleton_message_processor p)
   \<and> (singleton_message_processor p = None \<longrightarrow>
      get_message_processor p =
        Inl (Gen_Err ''Message_Processor::get_message_processor - Message_Processor singleton was never initialized''))
   \<and> (fst (Message_Processor_ctor spawn_ok self this level p) = Inr () \<longrightarrow>
      get_message_processor (snd (Message_Processor_ctor spawn_ok self this level p)) = Inr this)"
  by (auto simp: ctor_occupied get_message_processor_def dest: ctor_Inr_singleton)

theorem singleton_conditions_witness:
  "fst (Message_Processor_ctor True 6 2000 VERBOSITY_EVERYTHING
          (snd (Message_Processor_ctor True 5 1000 VERBOSITY_MINOR_STEPS initial_process))) =
     Inl (Gen_Err ''Message_Processor::get_message_processor - Message_Processor singleton already initialized'')
   \<and> singleton_message_processor (snd (Message_Processor_ctor True 6 2000 VERBOSITY_EVERYTHING
          (snd (Message_Processor_ctor True 5 1000 VERBOSITY_MINOR_STEPS initial_process)))) = Some 1000
   \<and> get_message_processor initial_process =
        Inl (Gen_Err ''Message_Processor::get_message_processor - Message_Processor singleton was never initialized'')
   \<and> fst (Message_Processor_ctor True 5 1000 VERBOSITY_MINOR_STEPS initial_process) = Inr ()
   \<and> get_message_processor (snd (Message_Processor_ctor True 5 1000 VERBOSITY_MINOR_STEPS initial_process)) = Inr 1000"
  using singleton_conditions
          [of "snd (Message_Processor_ctor True 5 1000 VERBOSITY_MINOR_STEPS initial_process)"
              True 6 2000 VERBOSITY_EVERYTHING]
        singleton_conditions [of initial_process True 5 1000 VERBOSITY_MINOR_STEPS]
        first_ctor
  by (simp add: initial_process_def)

text \<open>
  Claim C3, as stated, fails: the constructor stores \<^verbatim>\<open>this\<close> in the singleton
  pointer before it builds the implementation object, and neither its handler nor the
  destructor (\<open>dtor_keeps_slot\<close>) ever resets the pointer. After a construction that
  failed at the thread spawn the pointer is still set, and the next construction fails with
  ``already initialized''.
\<close>

theorem failed_construction_keeps_slot_counterexample:
  "fst (Message_Processor_ctor False 5 1000 VERBOSITY_MINOR_STEPS initial_process) =
     Inl (Gen_Err ''error in pthread_mutex_init'')
   \<and> singleton_message_processor
        (snd (Message_Processor_ctor False 5 1000 VERBOSITY_MINOR_STEPS initial_process)) = Some 1000
   \<and> fst (Message_Processor_ctor True 5 1000 VERBOSITY_MINOR_STEPS
          (snd (Message_Processor_ctor False 5 1000 VERBOSITY_MINOR_STEPS initial_process))) =
       Inl (Gen_Err ''Message_Processor::get_message_processor - Message_Processor singleton already initialized'')"
  by (simp add: Message_Processor_ctor_def Impl_ctor_def Let_def initial_process_def)

text \<open>
  Claim C3, amended. When the thread spawn fails, the constructor surfaces the error of the
  implementation object's constructor and leaves no implementation object behind
  (\<^verbatim>\<open>pimpl\<close> is null); the singleton pointer keeps the address of the failed
  instance, and every later construction fails with ``already initialized''.
\<close>

theorem failed_construction_keeps_slot:
  assumes "singleton_message_processor p = None"
  shows "fst (Message_Processor_ctor False self this level p) = Inl (Gen_Err ''error in pthread_mutex_init'')
     \<and> pimpl (snd (Message_Processor_ctor False self this level p)) this = None
     \<and> singleton_message_processor (snd (Message_Processor_ctor False self this level p)) = Some this
     \<and> fst (Message_Processor_ctor spawn_ok' self' this' level'
              (snd (Message_Processor_ctor False self this level p))) =
         Inl (Gen_Err ''Message_Processor::get_message_processor - Message_Processor singleton already initialized'')"
  using ctor_spawn_failure [OF assms, of self this level]
  by (simp add: ctor_occupied)

theorem failed_construction_keeps_slot_witness:
  "singleton_message_processor initial_process = None
   \<and> fst (Message_Processor_ctor False 5 1000 VERBOSITY_ERRORS initial_process) =
       Inl (Gen_Err ''error in pthread_mutex_init'')
   \<and> pimpl (snd (Message_Processor_ctor False 5 1000 VERBOSITY_ERRORS initial_process)) 1000 = None
   \<and> singleton_message_processor
        (snd (Message_Processor_ctor False 5 1000 VERBOSITY_ERRORS initial_process)) = Some 1000
   \<and> fst (Message_Processor_ctor True 5 2000 VERBOSITY_ERRORS
              (snd (Message_Processor_ctor False 5 1000 VERBOSITY_ERRORS initial_process))) =
         Inl (Gen_Err ''Message_Processor::get_message_processor - Message_Processor singleton already initialized'')"
  using failed_construction_keeps_slot [of initial_process 5 1000 VERBOSITY_ERRORS True 5 2000 VERBOSITY_ERRORS]
  by (simp add: initial_process_def)

subsection \<open>Sources that were never registered\<close>

text \<open>
  Claim C9, as stated, fails: \<^verbatim>\<open>process_msg\<close> tests the global ceiling first, and a
  severity above it ends the test before the verbosity map is read. That drop path leaves
  the map, and the whole object, unchanged.
\<close>

theorem unregistered_source_lookup_counterexample:
  "map_of (message_source_verbosity_map example_impl) 7 = None
   \<and> process_msg 5 7 VERBOSITY_EVERYTHING ''x'' example_impl = example_impl"
  by (simp add: example_impl_def process_msg_def level_le_def)

text \<open>
  Claim C9, amended. For a source id with no entry in the verbosity map:
  \<^verbatim>\<open>process_msg\<close> with a severity within the global ceiling inserts an entry at
  Quiet, the enumerator of value 0, whether it then pushes or drops; with a severity
  above the global ceiling it changes nothing; it pushes the message exactly when the
  severity is Quiet; and \<^verbatim>\<open>make_msg_to_display\<close> always inserts the Quiet entry and
  decides to display exactly when the severity is Quiet.
\<close>

theorem unregistered_source_lookup:
  assumes "map_of (message_source_verbosity_map st) k = None"
  shows "(level_le sev (overall_verbosity st) \<longrightarrow>
            message_source_verbosity_map (process_msg self k sev txt st) =
              message_source_verbosity_map st @ [(k, VERBOSITY_QUIET)])
       \<and> (\<not> level_le sev (overall_verbosity st) \<longrightarrow> process_msg self k sev txt st = st)
       \<and> message_queue (process_msg self k sev txt st) =
           (if sev = VERBOSITY_QUIET
            then push (message_queue st)
                   \<lparr>action = ACTION_DISPLAY_MSG, tid = self, src = k, severity = sev, msg = txt\<rparr>
            else message_queue st)
       \<and> (src m = k \<longrightarrow>
            fst (make_msg_to_display st m) = (severity m = VERBOSITY_QUIET)
            \<and> message_source_verbosity_map (snd (snd (make_msg_to_display st m))) =
                message_source_verbosity_map st @ [(k, VERBOSITY_QUIET)])"
  using assms
  by (auto simp: process_msg_def make_msg_to_display_def verbosity_index_def Let_def
                 update_fresh level_le_quiet level_le_quiet_iff)

theorem unregistered_source_lookup_witness:
  "map_of (message_source_verbosity_map example_impl) 7 = None
   \<and> level_le VERBOSITY_ERRORS (overall_verbosity example_impl)
   \<and> message_source_verbosity_map (process_msg 5 7 VERBOSITY_ERRORS ''x'' example_impl) =
       [(0, VERBOSITY_EVERYTHING), (1, VERBOSITY_EVERYTHING), (7, VERBOSITY_QUIET)]
   \<and> message_queue (process_msg 5 7 VERBOSITY_ERRORS ''x'' example_impl) = []
   \<and> \<not> level_le VERBOSITY_EVERYTHING (overall_verbosity example_impl)
   \<and> process_msg 5 7 VERBOSITY_EVERYTHING ''x'' example_impl = example_impl
   \<and> message_queue (process_msg 5 7 VERBOSITY_QUIET ''x'' example_impl) =
       [\<lparr>action = ACTION_DISPLAY_MSG, tid = 5, src = 7, severity = VERBOSITY_QUIET, msg = ''x''\<rparr>]
   \<and> \<not> fst (make_msg_to_display example_impl
          \<lparr>action = ACTION_DISPLAY_MSG, tid = 5, src = 7, severity = VERBOSITY_ERRORS, msg = ''x''\<rparr>)
   \<and> message_source_verbosity_map (snd (snd (make_msg_to_display example_impl
          \<lparr>action = ACTION_DISPLAY_MSG, tid = 5, src = 7, severity = VERBOSITY_ERRORS, msg = ''x''\<rparr>))) =
       [(0, VERBOSITY_EVERYTHING), (1, VERBOSITY_EVERYTHING), (7, VERBOSITY_QUIET)]"
proof -
  have none: "map_of (message_source_verbosity_map example_impl) 7 = None"
    by (simp add: example_impl_def)
  show ?thesis
    using none
      unregistered_source_lookup [OF none, of VERBOSITY_ERRORS 5 "''x''"
        "\<lparr>action = ACTION_DISPLAY_MSG, tid = 5, src = 7, severity = VERBOSITY_ERRORS, msg = ''x''\<rparr>"]
      unregistered_source_lookup [OF none, of VERBOSITY_EVERYTHING 5 "''x''"
        "\<lparr>action = ACTION_DISPLAY_MSG, tid = 5, src = 7, severity = VERBOSITY_ERRORS, msg = ''x''\<rparr>"]
      unregistered_source_lookup [OF none, of VERBOSITY_QUIET 5 "''x''"
        "\<lparr>action = ACTION_DISPLAY_MSG, tid = 5, src = 7, severity = VERBOSITY_ERRORS, msg = ''x''\<rparr>"]
    by (simp add: example_impl_def level_le_def push_def)
qed

subsection \<open>Leaving the loop\<close>

lemma three_mask: "(3 :: 32 word) = mask 2"
  by (simp add: mask_eq_decr_exp)

lemma and_3_mod_4: "unat ((w :: 32 word) AND 3) = unat w mod 4"
proof -
  have "unat (w AND mask 2) = unat w mod 2 ^ 2"
    by (simp add: take_bit_eq_mask [symmetric] unsigned_take_bit_eq take_bit_eq_mod unat_mod)
  then show ?thesis by (simp add: three_mask)
qed

lemma is_ticker_exit: "\<not> is_ticker ''Impl::run - exit''"
  by (simp add: is_ticker_def rfind_def npos_def)

lemma do_while_kill:
  assumes "message_queue st = m # q" and "action m = ACTION_KILL"
  shows "do_while self st loc cerr =
           Returned (st\<lparr>we_are_dead := True, is_processing := True, message_queue := q\<rparr>,
                     loc, cerr)"
  using assms
  by (subst do_while.simps) (simp add: loop_body_def Let_def)

text \<open>
  Claim C10. When the consumer pops a kill message it sets \<^verbatim>\<open>we_are_dead\<close>, leaves the
  loop and returns. Before it returns it builds one more message, of severity MinorSteps
  and source id 0, with the text ``Impl::run - exit'', and writes it once when it passes
  the ceiling of source 0 and the global ceiling as they are then; otherwise it writes
  nothing. The line written is the prefixed text with its own line break, and
  \<^verbatim>\<open>std::endl\<close> adds a second line break. So the last output of the thread can come
  after the kill message.
\<close>

theorem exit_diagnostic_after_kill:
  assumes "message_queue st = m # q" and "action m = ACTION_KILL"
    and "message_processor_src_id st = 0"
  shows "loop_from self st loc cerr =
     Returned
       (st\<lparr>we_are_dead := True, is_processing := False, message_queue := q,
           message_source_verbosity_map :=
             snd (verbosity_index (message_source_verbosity_map st) 0)\<rparr>,
        loc,
        if level_le VERBOSITY_MINOR_STEPS (fst (verbosity_index (message_source_verbosity_map st) 0))
           \<and> level_le VERBOSITY_MINOR_STEPS (overall_verbosity st)
        then cerr @ ''['' @ setw 2 (show_nat (unat self)) @ ''] Info:   ''
               @ (case map_of (message_source_name_map st) 0 of
                    Some name \<Rightarrow> name @ '' - '' | None \<Rightarrow> [])
               @ ''Impl::run - exit'' @ endl @ endl
        else cerr)"
  using assms(3) is_ticker_exit
  by (simp add: loop_from_def do_while_kill [OF assms(1,2)] Let_def make_msg_to_display_def
           split: prod.splits option.splits)

theorem exit_diagnostic_after_kill_witness:
  "loop_from 9
     (example_impl\<lparr>message_queue :=
        [\<lparr>action = ACTION_KILL, tid = 5, src = 0, severity = VERBOSITY_QUIET, msg = []\<rparr>]\<rparr>)
     initial_locals ''abc'' =
   Returned
     (example_impl\<lparr>we_are_dead := True\<rparr>, initial_locals,
      ''abc[ 9] Info:   Message_Processor - Impl::run - exit'' @ [CHR 0x0A, CHR 0x0A])"
  using exit_diagnostic_after_kill
          [of "example_impl\<lparr>message_queue :=
                 [\<lparr>action = ACTION_KILL, tid = 5, src = 0, severity = VERBOSITY_QUIET, msg = []\<rparr>]\<rparr>"
              "\<lparr>action = ACTION_KILL, tid = 5, src = 0, severity = VERBOSITY_QUIET, msg = []\<rparr>"
              "[]" 9 initial_locals "''abc''"]
  by (simp add: example_impl_def verbosity_index_def level_le_def setw_def endl_def show_nat.simps)

subsection \<open>Ticker messages from another source or thread\<close>

lemma make_msg_to_display_is_processing:
  "fst (make_msg_to_display (st\<lparr>is_processing := b\<rparr>) m) = fst (make_msg_to_display st m)"
  by (simp add: make_msg_to_display_def Let_def split: prod.splits)

lemma mod_tick_string_nth:
  "i < 4 \<Longrightarrow> mod_tick_string ! i = [CHR 0x08, ''!X=V'' ! i]"
proof -
  assume "i < 4"
  then have "i = 0 \<or> i = 1 \<or> i = 2 \<or> i = 3" by arith
  then show ?thesis by (auto simp: mod_tick_string_def)
qed

lemma tick_string_nth:
  "i < 4 \<Longrightarrow> tick_string ! i = [CHR 0x08, [CHR ''|'', CHR ''/'', CHR ''-'', CHR 0x5C] ! i]"
proof -
  assume "i < 4"
  then have "i = 0 \<or> i = 1 \<or> i = 2 \<or> i = 3" by arith
  then show ?thesis by (auto simp: tick_string_def)
qed

lemma rotations_distinct: "set mod_tick_string \<inter> set tick_string = {}"
  by (simp add: mod_tick_string_def tick_string_def)

lemma is_ticker_work: "is_ticker ''work .''"
  by (simp add: is_ticker_def rfind_def npos_def)

text \<open>
  The branch of the loop for a ticker message that does not compare equal to the
  remembered ticker. The consumer is in a ticker run (\<^verbatim>\<open>tick_count\<close> is not 0) and
  pops a display message that passes the ceilings, has a ticker text, and whose source id
  differs from \<^verbatim>\<open>prev_src\<close> or whose thread id differs from the sign-extended
  \<^verbatim>\<open>prev_tid\<close>. Then the iteration writes two characters, a backspace and the glyph
  of the rotation \<^verbatim>\<open>!X=V\<close> at index \<^verbatim>\<open>tick_count\<close> modulo 4: an entry of
  \<^verbatim>\<open>mod_tick_string\<close>, which has four entries and shares none with
  \<^verbatim>\<open>tick_string\<close>. It writes no line break and no message text, adds 1 to
  \<^verbatim>\<open>tick_count\<close>, and leaves the remembered source id, thread id, text and severity as
  they were.
\<close>

lemma interrupted_ticker_glyph:
  assumes "action m = ACTION_DISPLAY_MSG"
    and "fst (make_msg_to_display st m)"
    and "is_ticker (msg m)"
    and "tick_count loc \<noteq> 0"
    and "src m \<noteq> prev_src loc \<or> tid m \<noteq> scast (prev_tid loc)"
  shows "snd (loop_body self m st loc cerr) =
           (loc\<lparr>tick_count := tick_count loc + 1\<rparr>,
            cerr @ [CHR 0x08, ''!X=V'' ! (unat (tick_count loc) mod 4)])
         \<and> [CHR 0x08, ''!X=V'' ! (unat (tick_count loc) mod 4)] \<in> set mod_tick_string
         \<and> length mod_tick_string = 4
         \<and> set mod_tick_string \<inter> set tick_string = {}"
proof -
  have lt: "unat (tick_count loc) mod 4 < 4" by simp
  have shown: "fst (make_msg_to_display (st\<lparr>is_processing := True\<rparr>) m)"
    using assms(2) by (simp add: make_msg_to_display_is_processing)
  have "snd (loop_body self m st loc cerr) =
          (loc\<lparr>tick_count := tick_count loc + 1\<rparr>,
           cerr @ mod_tick_string ! unat (tick_count loc AND 3))"
    using assms(1,3,4,5) shown
    by (auto simp: loop_body_def Let_def split: prod.splits)
  moreover have "mod_tick_string ! (unat (tick_count loc) mod 4) \<in> set mod_tick_string"
    by (rule nth_mem) (simp add: mod_tick_string_def)
  ultimately show ?thesis
    using lt by (simp add: and_3_mod_4 mod_tick_string_nth rotations_distinct)
           (simp add: mod_tick_string_def)
qed

lemma interrupted_ticker_glyph_example:
  "snd (loop_body 9
          \<lparr>action = ACTION_DISPLAY_MSG, tid = 8, src = 1, severity = VERBOSITY_ERRORS,
           msg = ''work .''\<rparr>
          example_impl
          \<lparr>tick_count = 6, prev_msg = ''work .'', prev_tid = 7, prev_src = 1,
           prev_severity = VERBOSITY_ERRORS\<rparr>
          ''abc'') =
     (\<lparr>tick_count = 7, prev_msg = ''work .'', prev_tid = 7, prev_src = 1,
       prev_severity = VERBOSITY_ERRORS\<rparr>,
      ''abc'' @ [CHR 0x08, CHR ''=''])"
proof -
  have shown: "fst (make_msg_to_display example_impl
          \<lparr>action = ACTION_DISPLAY_MSG, tid = 8, src = 1, severity = VERBOSITY_ERRORS,
           msg = ''work .''\<rparr>)"
    by (simp add: make_msg_to_display_def example_impl_def verbosity_index_def level_le_def)
  show ?thesis
    using interrupted_ticker_glyph
          [of "\<lparr>action = ACTION_DISPLAY_MSG, tid = 8, src = 1, severity = VERBOSITY_ERRORS,
                msg = ''work .''\<rparr>"
              example_impl
              "\<lparr>tick_count = 6, prev_msg = ''work .'', prev_tid = 7, prev_src = 1,
                prev_severity = VERBOSITY_ERRORS\<rparr>" 9 "''abc''"]
          shown is_ticker_work
    by simp
qed

text \<open>
  When the thread id of the ticker's owner survives the conversion to \<^verbatim>\<open>int\<close> and
  back, the branch is taken by every ticker message of another source or another thread.
\<close>

lemma interrupted_glyph_when_owner_id_fits:
  assumes "action m = ACTION_DISPLAY_MSG"
    and "fst (make_msg_to_display st m)"
    and "is_ticker (msg m)"
    and "tick_count loc \<noteq> 0"
    and "prev_tid loc = ucast owner" and "scast (ucast owner :: 32 word) = owner"
    and "src m \<noteq> prev_src loc \<or> tid m \<noteq> owner"
  shows "snd (loop_body self m st loc cerr) =
           (loc\<lparr>tick_count := tick_count loc + 1\<rparr>,
            cerr @ [CHR 0x08, ''!X=V'' ! (unat (tick_count loc) mod 4)])"
proof -
  from assms(5,6,7) have "src m \<noteq> prev_src loc \<or> tid m \<noteq> scast (prev_tid loc)"
    by auto
  with interrupted_ticker_glyph [OF assms(1-4), of self cerr] show ?thesis by simp
qed

lemma is_ticker_load: "is_ticker ''load .''"
  by (simp add: is_ticker_def rfind_def npos_def)

text \<open>
  Claim C6 at a ticker owned by the thread with id \<^verbatim>\<open>0x100000005\<close> and a ticker
  message of the same source from the thread with id 5. \<^verbatim>\<open>prev_tid\<close> keeps the low
  32 bits of the owner's id, which is 5, so the message of the other thread compares equal
  to the remembered ticker. With the owner's text it gets the glyph \<^verbatim>\<open>/\<close> of the
  owner's rotation and not a glyph of the rotation \<^verbatim>\<open>!X=V\<close>; with another text it
  gets a line break and a full line of its own, and the remembered text is replaced.
\<close>

theorem other_thread_ticker_taken_for_owner:
  "do_while 9
     (example_impl\<lparr>message_queue :=
        [\<lparr>action = ACTION_DISPLAY_MSG, tid = 0x100000005, src = 1,
          severity = VERBOSITY_ERRORS, msg = ''work .''\<rparr>,
         \<lparr>action = ACTION_DISPLAY_MSG, tid = 5, src = 1,
          severity = VERBOSITY_ERRORS, msg = ''work .''\<rparr>]\<rparr>)
     initial_locals [] =
   Blocked_In_Pop
     (example_impl,
      \<lparr>tick_count = 2, prev_msg = ''work .'', prev_tid = 5, prev_src = 1,
       prev_severity = VERBOSITY_ERRORS\<rparr>,
      ''[4294967301] Error:  Net - work .'' @ [CHR 0x08, CHR ''|''] @ [CHR 0x08, CHR ''/''])
   \<and> do_while 9
     (example_impl\<lparr>message_queue :=
        [\<lparr>action = ACTION_DISPLAY_MSG, tid = 0x100000005, src = 1,
          severity = VERBOSITY_ERRORS, msg = ''work .''\<rparr>,
         \<lparr>action = ACTION_DISPLAY_MSG, tid = 5, src = 1,
          severity = VERBOSITY_ERRORS, msg = ''load .''\<rparr>]\<rparr>)
     initial_locals [] =
   Blocked_In_Pop
     (example_impl,
      \<lparr>tick_count = 1, prev_msg = ''load .'', prev_tid = 5, prev_src = 1,
       prev_severity = VERBOSITY_ERRORS\<rparr>,
      ''[4294967301] Error:  Net - work .'' @ [CHR 0x08, CHR ''|''] @ [CHR 0x0A]
        @ ''[ 5] Error:  Net - load .'' @ [CHR 0x08, CHR ''|''])"
  using is_ticker_work is_ticker_load
  by (simp add: do_while.simps loop_body_def make_msg_to_display_def Let_def example_impl_def
        verbosity_index_def level_le_def initial_locals_def setw_def show_nat.simps
        tick_string_def mod_tick_string_def endl_def)

subsection \<open>The ticker test\<close>

text \<open>
  What \<^verbatim>\<open>msg.rfind(" .") == msg.size() - 2\<close> decides, for every text a machine can
  hold: the text ends with the sentinel, or it is one character long. For a text of one
  character \<^verbatim>\<open>rfind\<close> returns \<^verbatim>\<open>npos\<close>, and \<^verbatim>\<open>size() - 2\<close> wraps around to
  the same value.
\<close>

lemma rfind_from_top:
  "take (length pat) (drop i s) = pat \<Longrightarrow> rfind_from s pat i = of_nat i"
  by (cases i) simp_all

lemma rfind_from_range:
  "rfind_from s pat i = npos \<or> (\<exists>j\<le>i. rfind_from s pat i = of_nat j)"
proof (induction i)
  case 0
  show ?case by auto
next
  case (Suc i)
  then show ?case
    by (cases "take (length pat) (drop (Suc i) s) = pat") (auto intro: le_SucI)
qed

lemma rfind_from_below:
  assumes "take (length pat) (drop i s) \<noteq> pat"
  shows "rfind_from s pat i = npos \<or> (\<exists>j<i. rfind_from s pat i = of_nat j)"
proof (cases i)
  case 0
  with assms show ?thesis by simp
next
  case (Suc k)
  with assms have "rfind_from s pat i = rfind_from s pat k" by simp
  with rfind_from_range [of s pat k] Suc show ?thesis by (auto simp: less_Suc_eq_le)
qed

lemma of_nat_64_inj:
  "a < 2 ^ 64 \<Longrightarrow> b < 2 ^ 64 \<Longrightarrow> (of_nat a :: 64 word) = of_nat b \<Longrightarrow> a = b"
  by (simp add: word_of_nat_eq_iff take_bit_nat_eq_self)


lemma npos_not_small: "a < 2 ^ 64 - 1 \<Longrightarrow> (of_nat a :: 64 word) \<noteq> npos"
proof
  assume a: "a < 2 ^ 64 - 1" and eq: "(of_nat a :: 64 word) = npos"
  have "npos = (of_nat (2 ^ 64 - 1) :: 64 word)" by (simp add: npos_def)
  with eq have "(of_nat a :: 64 word) = of_nat (2 ^ 64 - 1)" by simp
  with a have "a = 2 ^ 64 - 1" by (intro of_nat_64_inj) simp_all
  with a show False by simp
qed

lemma ends_with_take_drop:
  "2 \<le> length s \<Longrightarrow> (\<exists>p. s = p @ '' .'') \<longleftrightarrow> take 2 (drop (length s - 2) s) = '' .''"
proof
  assume "\<exists>p. s = p @ '' .''"
  then show "take 2 (drop (length s - 2) s) = '' .''" by auto
next
  assume len: "2 \<le> length s" and t: "take 2 (drop (length s - 2) s) = '' .''"
  from len have "drop (length s - 2) s = take 2 (drop (length s - 2) s)" by simp
  with t have "s = take (length s - 2) s @ '' .''"
    by (metis append_take_drop_id)
  then show "\<exists>p. s = p @ '' .''" ..
qed

lemma is_ticker_iff:
  assumes "length s < 2 ^ 64"
  shows "is_ticker s \<longleftrightarrow> length s = 1 \<or> (\<exists>p. s = p @ '' .'')"
proof (cases "2 \<le> length s")
  case False
  then have "length s = 0 \<or> length s = 1" by arith
  then show ?thesis
  proof
    assume "length s = 0"
    then show ?thesis by (simp add: is_ticker_def rfind_def npos_def)
  next
    assume "length s = 1"
    then show ?thesis by (simp add: is_ticker_def rfind_def npos_def)
  qed
next
  case True
  define n where "n = length s - 2"
  from True have len: "length s = n + 2" by (simp add: n_def)
  have sub: "(of_nat (length s) :: 64 word) - 2 = of_nat n" by (simp add: len)
  from assms len have n_small: "n < 2 ^ 64 - 1" by simp
  have rf: "rfind s '' .'' = rfind_from s '' .'' n" using True by (simp add: rfind_def n_def numeral_2_eq_2)
  have ew: "(\<exists>p. s = p @ '' .'') \<longleftrightarrow> take 2 (drop n s) = '' .''"
    using ends_with_take_drop [OF True] by (simp add: n_def)
  have not1: "length s \<noteq> 1" using True by simp
  show ?thesis
  proof (cases "take 2 (drop n s) = '' .''")
    case top: True
    then have "rfind_from s '' .'' n = of_nat n" by (intro rfind_from_top) (simp add: numeral_2_eq_2)
    with top show ?thesis
      unfolding is_ticker_def rf sub ew by simp
  next
    case notop: False
    then have "rfind_from s '' .'' n = npos \<or> (\<exists>j<n. rfind_from s '' .'' n = of_nat j)"
      by (intro rfind_from_below) (simp add: numeral_2_eq_2)
    then have "rfind_from s '' .'' n \<noteq> of_nat n"
    proof
      assume "rfind_from s '' .'' n = npos"
      with npos_not_small [OF n_small] show ?thesis by simp
    next
      assume "\<exists>j<n. rfind_from s '' .'' n = of_nat j"
      then obtain j where j: "j < n" "rfind_from s '' .'' n = of_nat j" by blast
      show ?thesis
      proof
        assume "rfind_from s '' .'' n = of_nat n"
        with j have "(of_nat j :: 64 word) = of_nat n" by simp
        with j(1) n_small have "j = n" by (intro of_nat_64_inj) simp_all
        with j(1) show False by simp
      qed
    qed
    with notop not1 show ?thesis
      unfolding is_ticker_def rf sub ew by simp
  qed
qed


text \<open>
  Claim C2 holds for every text but those of one character (\<open>is_ticker_iff\<close>). The
  text \<^verbatim>\<open>x\<close> does not end with the sentinel, yet the test holds for it: the
  message is written without a line break, the first rotation glyph follows it, and the
  consumer is in a ticker run afterwards.
\<close>

theorem one_character_text_is_ticker:
  "is_ticker ''x'' \<and> (\<forall>p. ''x'' \<noteq> p @ '' .'')
   \<and> loop_body 9
         \<lparr>action = ACTION_DISPLAY_MSG, tid = 7, src = 1, severity = VERBOSITY_ERRORS,
          msg = ''x''\<rparr>
         example_impl initial_locals [] =
       (example_impl\<lparr>is_processing := True\<rparr>,
        \<lparr>tick_count = 1, prev_msg = ''x'', prev_tid = 7, prev_src = 1,
         prev_severity = VERBOSITY_ERRORS\<rparr>,
        ''[ 7] Error:  Net - x'' @ [CHR 0x08, CHR ''|''])"
proof -
  have t: "is_ticker ''x''"
    by (simp add: is_ticker_def rfind_def npos_def)
  have "length ''x'' \<noteq> length (p @ '' .'')" for p by simp
  then have e: "\<forall>p. ''x'' \<noteq> p @ '' .''" by metis
  show ?thesis
    using t e
    by (simp add: loop_body_def make_msg_to_display_def Let_def example_impl_def
          verbosity_index_def level_le_def initial_locals_def setw_def show_nat.simps
          tick_string_def)
qed

subsection \<open>The destructor\<close>

text \<open>
  The destructor pushes the status message and then the kill message at the tail of the
  queue, and sleeps at most ten times, every time for the same \<^verbatim>\<open>timeval\<close>.
\<close>

lemma wait_for_death_bound:
  "length (wait_for_death dead_at i) \<le> 10 - i \<and> set (wait_for_death dead_at i) \<subseteq> {timeout}"
proof (induction dead_at i rule: wait_for_death.induct)
  case (1 dead_at i)
  show ?case
  proof (cases "\<not> dead_at i \<and> i < 10")
    case True
    then have "wait_for_death dead_at i = timeout # wait_for_death dead_at (i + 1)"
      by (subst wait_for_death.simps) simp
    with 1 True show ?thesis by auto
  next
    case False
    then have "wait_for_death dead_at i = []"
      by (subst wait_for_death.simps) auto
    then show ?thesis by simp
  qed
qed

lemma wait_for_death_never:
  "wait_for_death (\<lambda>i. False) i = replicate (10 - i) timeout"
proof (induction "\<lambda>i::nat. False" i rule: wait_for_death.induct)
  case (1 i)
  show ?case
  proof (cases "i < 10")
    case True
    then have "wait_for_death (\<lambda>i. False) i = timeout # wait_for_death (\<lambda>i. False) (i + 1)"
      by (subst wait_for_death.simps) simp
    moreover from True have "10 - i = Suc (10 - (i + 1))" by simp
    ultimately show ?thesis using 1 True by (simp del: replicate_Suc add: replicate_Suc [symmetric])
  next
    case False
    then have "wait_for_death (\<lambda>i. False) i = []"
      by (subst wait_for_death.simps) auto
    with False show ?thesis by simp
  qed
qed

lemma dtor_pushes_in_order:
  "message_queue (fst (snd (Impl_dtor self dead_at st cerr))) =
     message_queue st
     @ [\<lparr>action = ACTION_DISPLAY_MSG, tid = self, src = message_processor_src_id st,
         severity = VERBOSITY_MINOR_STEPS, msg = ''killing message processor''\<rparr>,
        \<lparr>action = ACTION_KILL, tid = self, src = message_processor_src_id st,
         severity = VERBOSITY_QUIET, msg = []\<rparr>]"
  by (simp add: Impl_dtor_def Let_def push_def make_msg_to_display_def split: prod.splits)

text \<open>
  Claim C8 at a consumer that never sets \<^verbatim>\<open>we_are_dead\<close> while the destructor waits.
  The destructor pushes the two messages in order, sleeps ten times and returns without
  touching the thread. Every sleep is for 0 seconds and 100000 microseconds, which is
  100 ms and not the 10 ms of the comment beside it; the ten sleeps add up to one second.
\<close>

theorem destructor_sleeps_one_second:
  "Impl_dtor 5 (\<lambda>i. False) example_impl ''abc'' =
     (replicate 10 (0, 100000),
      example_impl\<lparr>message_queue :=
        [\<lparr>action = ACTION_DISPLAY_MSG, tid = 5, src = 0, severity = VERBOSITY_MINOR_STEPS,
          msg = ''killing message processor''\<rparr>,
         \<lparr>action = ACTION_KILL, tid = 5, src = 0, severity = VERBOSITY_QUIET, msg = []\<rparr>]\<rparr>,
      ''abc'')
   \<and> sum_list (map snd (fst (Impl_dtor 5 (\<lambda>i. False) example_impl ''abc''))) = 1000000"
proof -
  have w: "wait_for_death (\<lambda>i. False) 0 = replicate 10 (0, 100000)"
    by (simp add: wait_for_death_never timeout_def)
  have s: "sum_list (map snd (replicate 10 (0 :: nat, 100000 :: nat))) = 1000000"
    by (simp add: sum_list_replicate)
  have "Impl_dtor 5 (\<lambda>i. False) example_impl ''abc'' =
     (replicate 10 (0, 100000),
      example_impl\<lparr>message_queue :=
        [\<lparr>action = ACTION_DISPLAY_MSG, tid = 5, src = 0, severity = VERBOSITY_MINOR_STEPS,
          msg = ''killing message processor''\<rparr>,
         \<lparr>action = ACTION_KILL, tid = 5, src = 0, severity = VERBOSITY_QUIET, msg = []\<rparr>]\<rparr>,
      ''abc'')"
    by (simp add: Impl_dtor_def Let_def w push_def make_msg_to_display_def example_impl_def
          verbosity_index_def level_le_def)
  with s show ?thesis by simp
qed

subsection \<open>Filtering at enqueue time and at render time\<close>

lemma verbosity_index_idem:
  "fst (verbosity_index (snd (verbosity_index vm k)) j) = fst (verbosity_index vm j)"
  by (auto simp: verbosity_index_def update_conv' split: option.splits)

lemma make_msg_to_display_decision:
  "fst (make_msg_to_display st m) =
     (level_le (severity m) (ceiling_of st (src m))
      \<and> level_le (severity m) (overall_verbosity st))"
  by (simp add: make_msg_to_display_def Let_def ceiling_of_def split: prod.splits)

lemma make_msg_to_display_state:
  "snd (snd (make_msg_to_display st m)) =
     st\<lparr>message_source_verbosity_map :=
          snd (verbosity_index (message_source_verbosity_map st) (src m))\<rparr>"
  by (simp add: make_msg_to_display_def Let_def split: prod.splits)

lemma make_msg_to_display_text:
  "message_source_name_map a = message_source_name_map b \<Longrightarrow>
     fst (snd (make_msg_to_display a m)) = fst (snd (make_msg_to_display b m))"
  by (simp add: make_msg_to_display_def Let_def split: prod.splits)

lemma make_msg_to_display_same_ceilings:
  assumes "same_ceilings a b"
  shows "fst (make_msg_to_display a m) = fst (make_msg_to_display b m)
       \<and> fst (snd (make_msg_to_display a m)) = fst (snd (make_msg_to_display b m))
       \<and> same_ceilings (snd (snd (make_msg_to_display a m))) (snd (snd (make_msg_to_display b m)))"
proof -
  from assms have names: "message_source_name_map a = message_source_name_map b"
    by (simp add: same_ceilings_def)
  have "same_ceilings (snd (snd (make_msg_to_display a m))) (snd (snd (make_msg_to_display b m)))"
    using assms
    by (simp add: make_msg_to_display_state same_ceilings_def ceiling_of_def verbosity_index_idem)
  moreover have "fst (make_msg_to_display a m) = fst (make_msg_to_display b m)"
    using assms by (simp add: make_msg_to_display_decision same_ceilings_def)
  ultimately show ?thesis
    using make_msg_to_display_text [OF names, of m] by simp
qed

lemma loop_body_same_ceilings:
  assumes "same_ceilings a b"
  shows "snd (loop_body self m a loc cerr) = snd (loop_body self m b loc cerr)
       \<and> same_ceilings (fst (loop_body self m a loc cerr)) (fst (loop_body self m b loc cerr))"
proof -
  have p: "same_ceilings (a\<lparr>is_processing := True\<rparr>) (b\<lparr>is_processing := True\<rparr>)"
    using assms by (simp add: same_ceilings_def ceiling_of_def)
  show ?thesis
  proof (cases "action m")
    case ACTION_KILL
    with assms show ?thesis
      by (simp add: loop_body_def Let_def same_ceilings_def ceiling_of_def)
  next
    case ACTION_DISPLAY_MSG
    obtain sa ta a' where A: "make_msg_to_display (a\<lparr>is_processing := True\<rparr>) m = (sa, ta, a')"
      by (metis prod_cases3)
    obtain sb tb b' where B: "make_msg_to_display (b\<lparr>is_processing := True\<rparr>) m = (sb, tb, b')"
      by (metis prod_cases3)
    from make_msg_to_display_same_ceilings [OF p, of m] A B
    have eq: "sa = sb" "ta = tb" "same_ceilings a' b'" by simp_all
    show ?thesis
      using eq ACTION_DISPLAY_MSG
      by (simp add: loop_body_def Let_def A B split: prod.splits)
  qed
qed

lemma loop_body_overall:
  "overall_verbosity (fst (loop_body self m a loc cerr)) = overall_verbosity a"
proof (cases "action m")
  case ACTION_KILL
  then show ?thesis by (simp add: loop_body_def Let_def)
next
  case ACTION_DISPLAY_MSG
  obtain sa ta a' where A: "make_msg_to_display (a\<lparr>is_processing := True\<rparr>) m = (sa, ta, a')"
    by (metis prod_cases3)
  from make_msg_to_display_state [of "a\<lparr>is_processing := True\<rparr>" m] A
  have "overall_verbosity a' = overall_verbosity a" by simp
  with ACTION_DISPLAY_MSG show ?thesis
    by (simp add: loop_body_def Let_def A split: prod.splits)
qed

lemma loop_body_dropped:
  assumes "action m = ACTION_DISPLAY_MSG"
    and "\<not> (level_le (severity m) (ceiling_of a (src m))
             \<and> level_le (severity m) (overall_verbosity a))"
  shows "snd (loop_body self m a loc cerr) = (loc, cerr)
       \<and> we_are_dead (fst (loop_body self m a loc cerr)) = we_are_dead a"
proof -
  obtain sa ta a' where A: "make_msg_to_display (a\<lparr>is_processing := True\<rparr>) m = (sa, ta, a')"
    by (metis prod_cases3)
  from make_msg_to_display_decision [of "a\<lparr>is_processing := True\<rparr>" m] A assms(2)
  have "\<not> sa" by (simp add: ceiling_of_def)
  moreover from make_msg_to_display_state [of "a\<lparr>is_processing := True\<rparr>" m] A
  have "we_are_dead a' = we_are_dead a" by simp
  ultimately show ?thesis
    using assms(1) by (simp add: loop_body_def Let_def A)
qed


lemma loop_body_queue_fst:
  "message_queue (fst (loop_body self m a loc cerr)) = message_queue a"
  using loop_body_queue [of self m a loc cerr] by (cases "loop_body self m a loc cerr") simp

lemma do_while_all_dropped:
  assumes "message_queue b = ms" and "\<not> we_are_dead b"
    and "\<forall>m\<in>set ms. action m = ACTION_DISPLAY_MSG
                     \<and> \<not> level_le (severity m) (overall_verbosity b)"
  shows "outcome (do_while self b loc cerr) = (False, loc, cerr)"
  using assms
proof (induction ms arbitrary: b)
  case Nil
  then show ?case by (subst do_while.simps) simp
next
  case (Cons m ms)
  let ?b1 = "b\<lparr>is_processing := False, message_queue := ms\<rparr>"
  obtain b' loc' cerr' where B: "loop_body self m ?b1 loc cerr = (b', loc', cerr')"
    by (metis prod_cases3)
  from Cons.prems have m: "action m = ACTION_DISPLAY_MSG"
    "\<not> level_le (severity m) (overall_verbosity ?b1)" by simp_all
  from loop_body_dropped [of m ?b1 self loc cerr] m B Cons.prems(2)
  have same: "loc' = loc" "cerr' = cerr" "\<not> we_are_dead b'" by simp_all
  from loop_body_overall [of self m ?b1 loc cerr] B
  have ov: "overall_verbosity b' = overall_verbosity b" by simp
  from loop_body_queue_fst [of self m ?b1 loc cerr] B
  have q: "message_queue b' = ms" by simp
  have "do_while self b loc cerr = do_while self b' loc cerr"
    using Cons.prems(1) B same by (subst do_while.simps) simp
  moreover have "outcome (do_while self b' loc cerr) = (False, loc, cerr)"
    using q same(3) Cons.prems(3) ov by (intro Cons.IH) simp_all
  ultimately show ?case by simp
qed

lemma do_while_dropped_tail:
  assumes "same_ceilings a b" and "message_queue b = message_queue a @ ms"
    and "ms = [] \<or> \<not> we_are_dead a"
    and "\<forall>m\<in>set ms. action m = ACTION_DISPLAY_MSG
                     \<and> \<not> level_le (severity m) (overall_verbosity a)"
  shows "outcome (do_while self b loc cerr) = outcome (do_while self a loc cerr)"
  using assms
proof (induction self a loc cerr arbitrary: b rule: do_while.induct)
  case (1 self st loc cerr)
  from "1.prems"(1) have ov: "overall_verbosity b = overall_verbosity st"
    and dead: "we_are_dead b = we_are_dead st"
    by (simp_all add: same_ceilings_def)
  show ?case
  proof (cases "message_queue st")
    case Nil
    then have "outcome (do_while self st loc cerr) = (False, loc, cerr)"
      by (subst do_while.simps) simp
    moreover have "outcome (do_while self b loc cerr) = (False, loc, cerr)"
    proof (cases "ms = []")
      case True
      with "1.prems"(2) Nil show ?thesis by (subst do_while.simps) simp
    next
      case False
      with "1.prems" Nil ov dead show ?thesis
        by (intro do_while_all_dropped [of b ms]) simp_all
    qed
    ultimately show ?thesis by simp
  next
    case (Cons m q')
    let ?a1 = "st\<lparr>is_processing := False, message_queue := q'\<rparr>"
    let ?b1 = "b\<lparr>is_processing := False, message_queue := q' @ ms\<rparr>"
    have r1: "same_ceilings ?a1 ?b1"
      using "1.prems"(1) by (simp add: same_ceilings_def ceiling_of_def)
    obtain a' loc' cerr' where A: "loop_body self m ?a1 loc cerr = (a', loc', cerr')"
      by (metis prod_cases3)
    obtain b' loc'' cerr'' where B: "loop_body self m ?b1 loc cerr = (b', loc'', cerr'')"
      by (metis prod_cases3)
    from loop_body_same_ceilings [OF r1, of self m loc cerr] A B
    have eq: "loc'' = loc'" "cerr'' = cerr'" "same_ceilings a' b'" by simp_all
    then have dead': "we_are_dead b' = we_are_dead a'" by (simp add: same_ceilings_def)
    from loop_body_queue_fst [of self m ?a1 loc cerr] A have qa: "message_queue a' = q'" by simp
    from loop_body_queue_fst [of self m ?b1 loc cerr] B have qb: "message_queue b' = q' @ ms" by simp
    from loop_body_overall [of self m ?a1 loc cerr] A
    have ov': "overall_verbosity a' = overall_verbosity st" by simp
    have L: "do_while self st loc cerr =
               (if \<not> we_are_dead a' then do_while self a' loc' cerr'
                else Returned (a', loc', cerr'))"
      using Cons A by (subst do_while.simps) simp
    have R: "do_while self b loc cerr =
               (if \<not> we_are_dead a' then do_while self b' loc' cerr'
                else Returned (b', loc', cerr'))"
      using Cons "1.prems"(2) B eq dead' by (subst do_while.simps) simp
    show ?thesis
    proof (cases "we_are_dead a'")
      case True
      with L R show ?thesis by simp
    next
      case False
      have "outcome (do_while self b' loc' cerr') = outcome (do_while self a' loc' cerr')"
        using Cons A [symmetric] False eq(3) qa qb ov' "1.prems"(4)
        by (intro "1.IH") simp_all
      with L R False show ?thesis by simp
    qed
  qed
qed


lemma process_msg_unfold:
  "process_msg self k sev msg_str st =
     (if level_le sev (overall_verbosity st) then
        if level_le sev (ceiling_of st k) then
          st\<lparr>message_source_verbosity_map :=
               snd (verbosity_index (message_source_verbosity_map st) k),
             message_queue :=
               message_queue st
               @ [\<lparr>action = ACTION_DISPLAY_MSG, tid = self, src = k, severity = sev,
                   msg = msg_str\<rparr>]\<rparr>
        else st\<lparr>message_source_verbosity_map :=
                  snd (verbosity_index (message_source_verbosity_map st) k)\<rparr>
      else st)"
  by (simp add: process_msg_def Let_def ceiling_of_def push_def split: prod.splits)

lemma process_msg_enqueued:
  assumes "level_le sev (overall_verbosity st)" and "level_le sev (ceiling_of st k)"
  shows "message_queue (process_msg self k sev msg_str st) =
           message_queue st
           @ [\<lparr>action = ACTION_DISPLAY_MSG, tid = self, src = k, severity = sev, msg = msg_str\<rparr>]
       \<and> same_ceilings st (process_msg self k sev msg_str st)"
  using assms
  by (simp add: process_msg_unfold same_ceilings_def ceiling_of_def verbosity_index_idem)

lemma process_msg_dropped:
  assumes "\<not> (level_le sev (overall_verbosity st) \<and> level_le sev (ceiling_of st k))"
  shows "message_queue (process_msg self k sev msg_str st) = message_queue st
       \<and> same_ceilings st (process_msg self k sev msg_str st)"
  using assms
  by (simp add: process_msg_unfold same_ceilings_def ceiling_of_def verbosity_index_idem)

lemma set_overall_verbosity_same_ceilings:
  "same_ceilings a b \<Longrightarrow>
     same_ceilings (set_overall_verbosity v a) (set_overall_verbosity v b)"
  by (simp add: same_ceilings_def set_overall_verbosity_def ceiling_of_def)

lemma is_ticker_hi: "\<not> is_ticker ''hi''"
  by (simp add: is_ticker_def rfind_def npos_def)

lemma blocked_at_once:
  "outcome (do_while 9 (set_overall_verbosity v example_impl) initial_locals []) =
     (False, initial_locals, [])"
  by (subst do_while.simps) (simp add: set_overall_verbosity_def example_impl_def)

text \<open>
  Claim C1. \<^verbatim>\<open>make_msg_to_display\<close> decides from the ceilings of the object as it
  is when the consumer calls it. A message that passed both ceilings in
  \<^verbatim>\<open>process_msg\<close> is in the queue; when \<^verbatim>\<open>set_overall_verbosity\<close> then lowers the
  global ceiling below its severity, the consumer's run writes what it would have written
  had the message never been sent. A message that \<^verbatim>\<open>process_msg\<close> dropped is not in
  the queue, and whatever \<^verbatim>\<open>set_overall_verbosity\<close> sets afterwards, the consumer's
  run is the run without that call.
\<close>

theorem render_decision_uses_current_ceilings:
  "fst (make_msg_to_display st' m) =
     (level_le (severity m) (ceiling_of st' (src m))
      \<and> level_le (severity m) (overall_verbosity st'))
   \<and> (level_le sev (overall_verbosity st) \<and> level_le sev (ceiling_of st k)
        \<and> \<not> level_le sev v \<and> \<not> we_are_dead st \<longrightarrow>
       message_queue (set_overall_verbosity v (process_msg self k sev msg_str st)) =
         message_queue st
         @ [\<lparr>action = ACTION_DISPLAY_MSG, tid = self, src = k, severity = sev, msg = msg_str\<rparr>]
       \<and> outcome (do_while cself (set_overall_verbosity v (process_msg self k sev msg_str st))
                    loc cerr) =
           outcome (do_while cself (set_overall_verbosity v st) loc cerr))
   \<and> (\<not> (level_le sev (overall_verbosity st) \<and> level_le sev (ceiling_of st k)) \<longrightarrow>
       message_queue (set_overall_verbosity v (process_msg self k sev msg_str st)) =
         message_queue st
       \<and> outcome (do_while cself (set_overall_verbosity v (process_msg self k sev msg_str st))
                    loc cerr) =
           outcome (do_while cself (set_overall_verbosity v st) loc cerr))"
proof (intro conjI impI)
  show "fst (make_msg_to_display st' m) =
     (level_le (severity m) (ceiling_of st' (src m))
      \<and> level_le (severity m) (overall_verbosity st'))"
    by (rule make_msg_to_display_decision)
next
  let ?m = "\<lparr>action = ACTION_DISPLAY_MSG, tid = self, src = k, severity = sev, msg = msg_str\<rparr>"
  let ?a = "set_overall_verbosity v st"
  let ?b = "set_overall_verbosity v (process_msg self k sev msg_str st)"
  assume h: "level_le sev (overall_verbosity st) \<and> level_le sev (ceiling_of st k)
             \<and> \<not> level_le sev v \<and> \<not> we_are_dead st"
  from h process_msg_enqueued [of sev st k self msg_str]
  have q: "message_queue (process_msg self k sev msg_str st) = message_queue st @ [?m]"
    and r: "same_ceilings st (process_msg self k sev msg_str st)" by simp_all
  from q show qb: "message_queue ?b = message_queue st @ [?m]"
    by (simp add: set_overall_verbosity_def)
  then have qb': "message_queue ?b = message_queue ?a @ [?m]"
    by (simp add: set_overall_verbosity_def)
  show "outcome (do_while cself ?b loc cerr) = outcome (do_while cself ?a loc cerr)"
    using set_overall_verbosity_same_ceilings [OF r, of v] qb' h
    by (intro do_while_dropped_tail [of ?a ?b "[?m]"]) (simp_all add: set_overall_verbosity_def)
next
  let ?a = "set_overall_verbosity v st"
  let ?b = "set_overall_verbosity v (process_msg self k sev msg_str st)"
  assume h: "\<not> (level_le sev (overall_verbosity st) \<and> level_le sev (ceiling_of st k))"
  from process_msg_dropped [OF h, of self msg_str]
  have q: "message_queue (process_msg self k sev msg_str st) = message_queue st"
    and r: "same_ceilings st (process_msg self k sev msg_str st)" by simp_all
  from q show qb: "message_queue ?b = message_queue st"
    by (simp add: set_overall_verbosity_def)
  then have qb': "message_queue ?b = message_queue ?a @ []"
    by (simp add: set_overall_verbosity_def)
  show "outcome (do_while cself ?b loc cerr) = outcome (do_while cself ?a loc cerr)"
    using set_overall_verbosity_same_ceilings [OF r, of v] qb'
    by (intro do_while_dropped_tail [of ?a ?b "[]"]) simp_all
qed

theorem render_decision_uses_current_ceilings_witness:
  "message_queue (set_overall_verbosity VERBOSITY_ERRORS
      (process_msg 5 1 VERBOSITY_MAJOR_STEPS ''hi'' example_impl)) =
     [\<lparr>action = ACTION_DISPLAY_MSG, tid = 5, src = 1, severity = VERBOSITY_MAJOR_STEPS,
       msg = ''hi''\<rparr>]
   \<and> outcome (do_while 9 (process_msg 5 1 VERBOSITY_MAJOR_STEPS ''hi'' example_impl)
                initial_locals []) =
       (False,
        \<lparr>tick_count = 0, prev_msg = ''hi'', prev_tid = 5, prev_src = 1,
         prev_severity = VERBOSITY_MAJOR_STEPS\<rparr>,
        ''[ 5] Info:   Net - hi'' @ [CHR 0x0A])
   \<and> outcome (do_while 9 (set_overall_verbosity VERBOSITY_ERRORS
                (process_msg 5 1 VERBOSITY_MAJOR_STEPS ''hi'' example_impl))
                initial_locals []) =
       (False, initial_locals, [])
   \<and> message_queue (set_overall_verbosity VERBOSITY_EVERYTHING
        (process_msg 5 1 VERBOSITY_EVERYTHING ''hi'' example_impl)) = []
   \<and> outcome (do_while 9 (set_overall_verbosity VERBOSITY_EVERYTHING
                (process_msg 5 1 VERBOSITY_EVERYTHING ''hi'' example_impl))
                initial_locals []) =
       (False, initial_locals, [])"
proof -
  have shown: "outcome (do_while 9 (process_msg 5 1 VERBOSITY_MAJOR_STEPS ''hi'' example_impl)
                initial_locals []) =
       (False,
        \<lparr>tick_count = 0, prev_msg = ''hi'', prev_tid = 5, prev_src = 1,
         prev_severity = VERBOSITY_MAJOR_STEPS\<rparr>,
        ''[ 5] Info:   Net - hi'' @ [CHR 0x0A])"
    using is_ticker_hi
    by (simp add: do_while.simps loop_body_def make_msg_to_display_def Let_def
          process_msg_def push_def example_impl_def verbosity_index_def level_le_def
          initial_locals_def setw_def show_nat.simps endl_def)
  have pre: "level_le VERBOSITY_MAJOR_STEPS (overall_verbosity example_impl)
             \<and> level_le VERBOSITY_MAJOR_STEPS (ceiling_of example_impl 1)
             \<and> \<not> level_le VERBOSITY_MAJOR_STEPS VERBOSITY_ERRORS
             \<and> \<not> we_are_dead example_impl
             \<and> \<not> level_le VERBOSITY_EVERYTHING (overall_verbosity example_impl)"
    by (simp add: example_impl_def ceiling_of_def verbosity_index_def level_le_def)
  show ?thesis
    using render_decision_uses_current_ceilings
            [where st = example_impl and sev = VERBOSITY_MAJOR_STEPS and k = 1
               and v = VERBOSITY_ERRORS and self = 5 and msg_str = "''hi''" and cself = 9
               and loc = initial_locals and cerr = "[]"]
          render_decision_uses_current_ceilings
            [where st = example_impl and sev = VERBOSITY_EVERYTHING and k = 1
               and v = VERBOSITY_EVERYTHING and self = 5 and msg_str = "''hi''" and cself = 9
               and loc = initial_locals and cerr = "[]"]
          pre shown blocked_at_once
    by (simp add: example_impl_def)
qed

subsection \<open>Ticker messages of one thread\<close>

text \<open>
  A run of ticker messages with one source id, thread id and text, as the comparison of
  the loop sees them. When the thread id survives the conversion to \<^verbatim>\<open>int\<close> and
  back, the first message is written in full and every later one adds one glyph of the
  rotation \<^verbatim>\<open>tick_string\<close>, in turn.
\<close>

lemma loop_body_ceiling:
  "ceiling_of (fst (loop_body self m a loc cerr)) k = ceiling_of a k"
proof (cases "action m")
  case ACTION_KILL
  then show ?thesis by (simp add: loop_body_def Let_def ceiling_of_def)
next
  case ACTION_DISPLAY_MSG
  obtain sa ta a' where A: "make_msg_to_display (a\<lparr>is_processing := True\<rparr>) m = (sa, ta, a')"
    by (metis prod_cases3)
  from make_msg_to_display_state [of "a\<lparr>is_processing := True\<rparr>" m] A
  have "ceiling_of a' k = ceiling_of a k" by (simp add: ceiling_of_def verbosity_index_idem)
  with ACTION_DISPLAY_MSG show ?thesis
    by (simp add: loop_body_def Let_def A split: prod.splits)
qed

lemma loop_body_display_alive:
  assumes "action m = ACTION_DISPLAY_MSG"
  shows "we_are_dead (fst (loop_body self m a loc cerr)) = we_are_dead a"
proof -
  obtain sa ta a' where A: "make_msg_to_display (a\<lparr>is_processing := True\<rparr>) m = (sa, ta, a')"
    by (metis prod_cases3)
  from make_msg_to_display_state [of "a\<lparr>is_processing := True\<rparr>" m] A
  have "we_are_dead a' = we_are_dead a" by simp
  with assms show ?thesis
    by (simp add: loop_body_def Let_def A split: prod.splits)
qed

lemma loop_body_shown_again:
  "fst (make_msg_to_display (fst (loop_body self m' a loc cerr)) m) = fst (make_msg_to_display a m)"
  by (simp add: make_msg_to_display_decision loop_body_ceiling loop_body_overall)

lemma same_ticker_step:
  assumes "action m = ACTION_DISPLAY_MSG" and "fst (make_msg_to_display st m)"
    and "is_ticker (msg m)" and "tick_count loc \<noteq> 0"
    and "src m = prev_src loc" and "tid m = scast (prev_tid loc)" and "msg m = prev_msg loc"
  shows "snd (loop_body self m st loc cerr) =
           (loc\<lparr>tick_count := tick_count loc + 1\<rparr>,
            cerr @ tick_string ! (unat (tick_count loc) mod 4))"
proof -
  have shown: "fst (make_msg_to_display (st\<lparr>is_processing := True\<rparr>) m)"
    using assms(2) by (simp add: make_msg_to_display_is_processing)
  show ?thesis
    using assms(1,3-) shown
    by (auto simp: loop_body_def Let_def and_3_mod_4 split: prod.splits)
qed

lemma first_ticker_step:
  assumes "action m = ACTION_DISPLAY_MSG" and "fst (make_msg_to_display st m)"
    and "is_ticker (msg m)" and "tick_count loc = 0"
  shows "snd (loop_body self m st loc cerr) =
           (loc\<lparr>prev_src := src m, prev_msg := msg m, prev_tid := ucast (tid m),
                tick_count := 1\<rparr>,
            cerr @ fst (snd (make_msg_to_display st m)) @ tick_string ! 0)"
proof -
  have shown: "fst (make_msg_to_display (st\<lparr>is_processing := True\<rparr>) m)"
    using assms(2) by (simp add: make_msg_to_display_is_processing)
  have "fst (snd (make_msg_to_display (st\<lparr>is_processing := True\<rparr>) m)) =
        fst (snd (make_msg_to_display st m))"
    by (rule make_msg_to_display_text) simp
  then show ?thesis
    using assms(1,3-) shown
    by (auto simp: loop_body_def Let_def split: prod.splits)
qed


lemma tick_count_of_nat:
  assumes "c < 2 ^ 32"
  shows "unat (of_nat c :: 32 word) = c" and "0 < c \<Longrightarrow> (of_nat c :: 32 word) \<noteq> 0"
proof -
  show u: "unat (of_nat c :: 32 word) = c"
    using assms by (simp add: unat_of_nat)
  assume "0 < c"
  with u show "(of_nat c :: 32 word) \<noteq> 0" by (metis unat_0 less_numeral_extra(3))
qed

lemma ticking_run:
  assumes "message_queue st = replicate n m" and "\<not> we_are_dead st"
    and "action m = ACTION_DISPLAY_MSG" and "fst (make_msg_to_display st m)"
    and "is_ticker (msg m)"
    and "src m = prev_src loc" and "tid m = scast (prev_tid loc)" and "msg m = prev_msg loc"
    and "tick_count loc = of_nat c" and "0 < c" and "c + n < 2 ^ 32"
  shows "outcome (do_while self st loc cerr) =
           (False, loc\<lparr>tick_count := of_nat (c + n)\<rparr>,
            cerr @ concat (map (\<lambda>i. tick_string ! (i mod 4)) [c..<c + n]))"
  using assms
proof (induction n arbitrary: st loc cerr c)
  case 0
  then show ?case by (subst do_while.simps) simp
next
  case (Suc n)
  let ?st1 = "st\<lparr>is_processing := False, message_queue := replicate n m\<rparr>"
  obtain st' loc' cerr' where B: "loop_body self m ?st1 loc cerr = (st', loc', cerr')"
    by (metis prod_cases3)
  from Suc.prems have c: "c < 2 ^ 32" by simp
  have shown1: "fst (make_msg_to_display ?st1 m)"
    using Suc.prems(4) by (simp add: make_msg_to_display_decision ceiling_of_def)
  from same_ticker_step [of m ?st1 loc self cerr] Suc.prems shown1 B
       tick_count_of_nat [OF c]
  have step: "loc' = loc\<lparr>tick_count := of_nat (Suc c)\<rparr>"
             "cerr' = cerr @ tick_string ! (c mod 4)"
    by simp_all
  from loop_body_display_alive [of m self ?st1 loc cerr] Suc.prems(2,3) B
  have alive: "\<not> we_are_dead st'" by simp
  from loop_body_queue_fst [of self m ?st1 loc cerr] B
  have q: "message_queue st' = replicate n m" by simp
  from loop_body_shown_again [of self m ?st1 loc cerr m] B shown1
  have shown': "fst (make_msg_to_display st' m)" by simp
  have "do_while self st loc cerr = do_while self st' loc' cerr'"
    using Suc.prems(1) B alive by (subst do_while.simps) simp
  moreover have "outcome (do_while self st' loc' cerr') =
           (False, loc'\<lparr>tick_count := of_nat (Suc c + n)\<rparr>,
            cerr' @ concat (map (\<lambda>i. tick_string ! (i mod 4)) [Suc c..<Suc c + n]))"
    using q alive shown' Suc.prems step
    by (intro Suc.IH) simp_all
  ultimately show ?case
    using step by (simp add: upt_rec [of c])
qed


lemma ticker_run_coalesced:
  assumes "message_queue st = replicate (Suc n) m" and "\<not> we_are_dead st"
    and "action m = ACTION_DISPLAY_MSG" and "fst (make_msg_to_display st m)"
    and "is_ticker (msg m)" and "tick_count loc = 0"
    and "scast (ucast (tid m) :: 32 word) = tid m" and "Suc n < 2 ^ 32"
  shows "outcome (do_while self st loc cerr) =
           (False,
            loc\<lparr>prev_src := src m, prev_msg := msg m, prev_tid := ucast (tid m),
                tick_count := of_nat (Suc n)\<rparr>,
            cerr @ fst (snd (make_msg_to_display st m))
              @ concat (map (\<lambda>i. tick_string ! (i mod 4)) [0..<Suc n]))"
proof -
  let ?st1 = "st\<lparr>is_processing := False, message_queue := replicate n m\<rparr>"
  let ?loc1 = "loc\<lparr>prev_src := src m, prev_msg := msg m, prev_tid := ucast (tid m),
                   tick_count := 1\<rparr>"
  obtain st' loc' cerr' where B: "loop_body self m ?st1 loc cerr = (st', loc', cerr')"
    by (metis prod_cases3)
  have shown1: "fst (make_msg_to_display ?st1 m)"
    using assms(4) by (simp add: make_msg_to_display_decision ceiling_of_def)
  have text1: "fst (snd (make_msg_to_display ?st1 m)) = fst (snd (make_msg_to_display st m))"
    by (rule make_msg_to_display_text) simp
  from first_ticker_step [of m ?st1 loc self cerr] assms(3,5,6) shown1 B text1
  have step: "loc' = ?loc1"
             "cerr' = cerr @ fst (snd (make_msg_to_display st m)) @ tick_string ! 0"
    by simp_all
  from loop_body_display_alive [of m self ?st1 loc cerr] assms(2,3) B
  have alive: "\<not> we_are_dead st'" by simp
  from loop_body_queue_fst [of self m ?st1 loc cerr] B
  have q: "message_queue st' = replicate n m" by simp
  from loop_body_shown_again [of self m ?st1 loc cerr m] B shown1
  have shown': "fst (make_msg_to_display st' m)" by simp
  have "do_while self st loc cerr = do_while self st' loc' cerr'"
    using assms(1) B alive by (subst do_while.simps) simp
  moreover have "outcome (do_while self st' ?loc1 cerr') =
           (False, ?loc1\<lparr>tick_count := of_nat (1 + n)\<rparr>,
            cerr' @ concat (map (\<lambda>i. tick_string ! (i mod 4)) [1..<1 + n]))"
    using q alive shown' assms(3,5,7,8)
    by (intro ticking_run) simp_all
  ultimately show ?thesis
    using step by (simp add: upt_rec [of 0])
qed

text \<open>
  With the thread id 5, which fits an \<^verbatim>\<open>int\<close>, two equal ticker messages give the
  full line, the glyph \<^verbatim>\<open>|\<close> and the glyph \<^verbatim>\<open>/\<close>.
\<close>

lemma small_thread_id_coalesced:
  "do_while 9
     (example_impl\<lparr>message_queue :=
        [\<lparr>action = ACTION_DISPLAY_MSG, tid = 5, src = 1, severity = VERBOSITY_ERRORS,
          msg = ''work .''\<rparr>,
         \<lparr>action = ACTION_DISPLAY_MSG, tid = 5, src = 1, severity = VERBOSITY_ERRORS,
          msg = ''work .''\<rparr>]\<rparr>)
     initial_locals [] =
   Blocked_In_Pop
     (example_impl,
      \<lparr>tick_count = 2, prev_msg = ''work .'', prev_tid = 5, prev_src = 1,
       prev_severity = VERBOSITY_ERRORS\<rparr>,
      ''[ 5] Error:  Net - work .'' @ [CHR 0x08, CHR ''|''] @ [CHR 0x08, CHR ''/''])"
  using is_ticker_work
  by (simp add: do_while.simps loop_body_def make_msg_to_display_def Let_def example_impl_def
        verbosity_index_def level_le_def initial_locals_def setw_def show_nat.simps
        tick_string_def mod_tick_string_def)

text \<open>
  Claim C5 at a thread id of a 64-bit Linux process. Two ticker messages with the same
  source id, thread id and text arrive while the consumer is not in a ticker run. The
  first is written in full with the glyph \<^verbatim>\<open>|\<close>. \<^verbatim>\<open>prev_tid\<close> keeps only the low
  32 bits of the thread id, so the second message does not compare equal to it and gets
  the glyph \<^verbatim>\<open>X\<close> of the rotation for other sources, not \<^verbatim>\<open>/\<close>.
\<close>

theorem same_thread_ticker_not_coalesced:
  "do_while 9
     (example_impl\<lparr>message_queue :=
        [\<lparr>action = ACTION_DISPLAY_MSG, tid = 0x7F0000001000, src = 1,
          severity = VERBOSITY_ERRORS, msg = ''work .''\<rparr>,
         \<lparr>action = ACTION_DISPLAY_MSG, tid = 0x7F0000001000, src = 1,
          severity = VERBOSITY_ERRORS, msg = ''work .''\<rparr>]\<rparr>)
     initial_locals [] =
   Blocked_In_Pop
     (example_impl,
      \<lparr>tick_count = 2, prev_msg = ''work .'', prev_tid = 0x1000, prev_src = 1,
       prev_severity = VERBOSITY_ERRORS\<rparr>,
      ''[139637976731648] Error:  Net - work .'' @ [CHR 0x08, CHR ''|''] @ [CHR 0x08, CHR ''X''])"
  using is_ticker_work
  by (simp add: do_while.simps loop_body_def make_msg_to_display_def Let_def example_impl_def
        verbosity_index_def level_le_def initial_locals_def setw_def show_nat.simps
        tick_string_def mod_tick_string_def)

end
